theory Spec2Isabelle
  imports Complex_Main "HOL-Library.Word" "HOL-Library.Sublist" "HOL-Library.Log_Nat"
begin

section \<open>The verification helper \<^verbatim>\<open>verify_arl_copy\<close> (ical_demo.c, lines 16-46)\<close>

text \<open>
  The helper receives two pointers to \<^verbatim>\<open>ARLVis\<close> structs. Memory is modelled as two
  partial maps: the structs that live at an address, and the bytes that can be read at
  an address. An address outside the domain of a map is one the C program must not
  dereference; a run that does so has no defined result, which the model returns as
  \<open>None\<close>.
\<close>

type_synonym addr = nat
type_synonym byte = "8 word"

text \<open>
  Modelled from the spec: the struct \<^verbatim>\<open>ARLVis\<close> is declared in \<^verbatim>\<open>arlwrap.h\<close>, which is
  not part of the sources. The helper uses the fields \<^verbatim>\<open>nvis\<close> (visibility count),
  \<^verbatim>\<open>npol\<close> (polarisation count) and \<^verbatim>\<open>data\<close> (raw data pointer); the driver also reads
  \<^verbatim>\<open>phasecentre\<close>. The two counts are taken as C \<^verbatim>\<open>int\<close> values.
\<close>

record ARLVis =
  nvis :: int
  npol :: int
  data :: addr
  phasecentre :: addr

record memory =
  vis_at :: "addr \<rightharpoonup> ARLVis"
  byte_at :: "addr \<rightharpoonup> byte"

text \<open>
  C \<^verbatim>\<open>int\<close> arithmetic: 32 bits, two's complement; a signed operation whose exact
  result does not fit has no defined result.
\<close>

definition int_fits :: "int \<Rightarrow> bool" where
  "int_fits x \<longleftrightarrow> - (2 ^ 31) \<le> x \<and> x < 2 ^ 31"

definition int_mul :: "int \<Rightarrow> int \<Rightarrow> int option" where
  "int_mul x y = (if int_fits (x * y) then Some (x * y) else None)"

definition int_add :: "int \<Rightarrow> int \<Rightarrow> int option" where
  "int_add x y = (if int_fits (x + y) then Some (x + y) else None)"

text \<open>Line 35: \<^verbatim>\<open>ARLVisDataSize = 80 + (32 * vt->npol * vt->nvis)\<close>, evaluated left to right.\<close>

definition ARLVisDataSize :: "ARLVis \<Rightarrow> int option" where
  "ARLVisDataSize v =
     (case int_mul 32 (npol v) of
        None \<Rightarrow> None
      | Some p \<Rightarrow>
          (case int_mul p (nvis v) of
             None \<Rightarrow> None
           | Some q \<Rightarrow> int_add 80 q))"

text \<open>
  Lines 39-45: the loop over \<^verbatim>\<open>i = 0 .. ARLVisDataSize - 1\<close>. It returns 4 at the first
  offset where the two bytes differ, and 0 when it runs to the end.
\<close>

function compare_bytes :: "memory \<Rightarrow> addr \<Rightarrow> addr \<Rightarrow> int \<Rightarrow> int \<Rightarrow> int option" where
  "compare_bytes m vtdata_bytes vtmpdata_bytes i n =
     (if i < n then
        (case byte_at m (vtdata_bytes + nat i) of
           None \<Rightarrow> None
         | Some x \<Rightarrow>
             (case byte_at m (vtmpdata_bytes + nat i) of
                None \<Rightarrow> None
              | Some y \<Rightarrow>
                  if x \<noteq> y then Some 4
                  else compare_bytes m vtdata_bytes vtmpdata_bytes (i + 1) n))
      else Some 0)"
  by pat_completeness auto
termination
  by (relation "measure (\<lambda>(m, p, q, i, n). nat (n - i))") auto

declare compare_bytes.simps [simp del]

definition verify_arl_copy :: "memory \<Rightarrow> addr \<Rightarrow> addr \<Rightarrow> int option" where
  "verify_arl_copy m vt vtmp =
     (if vt = vtmp then Some 1
      else
        (case vis_at m vt of
           None \<Rightarrow> None
         | Some a \<Rightarrow>
             (case vis_at m vtmp of
                None \<Rightarrow> None
              | Some b \<Rightarrow>
                  if \<not> (nvis a = nvis b \<and> npol a = npol b) then Some 2
                  else if data a = data b then Some 3
                  else
                    (case ARLVisDataSize a of
                       None \<Rightarrow> None
                     | Some n \<Rightarrow> compare_bytes m (data a) (data b) 0 n))))"

text \<open>
  The size of line 35 and the two products it is built from lie between \<^verbatim>\<open>INT_MIN\<close>
  and \<^verbatim>\<open>INT_MAX\<close>. This is stated on the fields and on the two bounds alone, not on
  \<open>ARLVisDataSize\<close> or the arithmetic it uses.
\<close>

definition size_fits :: "ARLVis \<Rightarrow> bool" where
  "size_fits v \<longleftrightarrow>
     - 2147483648 \<le> 32 * npol v \<and> 32 * npol v \<le> 2147483647 \<and>
     - 2147483648 \<le> 32 * npol v * nvis v \<and> 32 * npol v * nvis v \<le> 2147483647 \<and>
     - 2147483648 \<le> 80 + 32 * npol v * nvis v \<and> 80 + 32 * npol v * nvis v \<le> 2147483647"

text \<open>
  \<open>agree_range m p q i k\<close>: at every offset from \<open>i\<close> up to \<open>k - 1\<close> the byte of the
  block at \<open>p\<close> can be read and the block at \<open>q\<close> holds the same byte.
  \<open>differ_at m p q k\<close>: at offset \<open>k\<close> both bytes can be read, and they differ.
  \<open>first_difference m p q n\<close>: the two blocks differ at some offset below \<open>n\<close> and
  agree at every offset before it.
  \<open>extent_readable m p q n\<close>: the first \<open>n\<close> bytes of both blocks can be read.
\<close>

definition agree_range :: "memory \<Rightarrow> addr \<Rightarrow> addr \<Rightarrow> int \<Rightarrow> int \<Rightarrow> bool" where
  "agree_range m p q i k \<longleftrightarrow>
     (\<forall>j. i \<le> j \<and> j < k \<longrightarrow>
        byte_at m (p + nat j) \<noteq> None \<and> byte_at m (p + nat j) = byte_at m (q + nat j))"

definition differ_at :: "memory \<Rightarrow> addr \<Rightarrow> addr \<Rightarrow> int \<Rightarrow> bool" where
  "differ_at m p q k \<longleftrightarrow>
     byte_at m (p + nat k) \<noteq> None \<and> byte_at m (q + nat k) \<noteq> None \<and>
     byte_at m (p + nat k) \<noteq> byte_at m (q + nat k)"

definition first_difference :: "memory \<Rightarrow> addr \<Rightarrow> addr \<Rightarrow> int \<Rightarrow> bool" where
  "first_difference m p q n \<longleftrightarrow>
     (\<exists>k. 0 \<le> k \<and> k < n \<and> agree_range m p q 0 k \<and> differ_at m p q k)"



text \<open>
  Example memories, used to run the helper on concrete inputs. In
  \<open>flipped_byte_memory\<close> two buffers of two visibilities (144 compared bytes) differ at
  offset 100, and nothing can be read past that offset. In \<open>copy_memory\<close> two buffers
  of one visibility (112 compared bytes) hold the same bytes. In \<open>overflow_memory\<close>
  two buffers of \<open>2 ^ 26\<close> visibilities differ in their first byte, and every byte can
  be read. In \<open>aliased_memory\<close> two structs share their data block and differ in
  \<^verbatim>\<open>npol\<close>; in \<open>aliased_copy_memory\<close> they share it and have the same shape.
\<close>

definition flipped_byte_memory :: memory where
  "flipped_byte_memory =
     \<lparr>vis_at = [100 \<mapsto> \<lparr>nvis = 2, npol = 1, data = 1000, phasecentre = 0\<rparr>,
                 200 \<mapsto> \<lparr>nvis = 2, npol = 1, data = 2000, phasecentre = 0\<rparr>],
      byte_at = (\<lambda>a. if a = 2100 then Some 1
                      else if (1000 \<le> a \<and> a \<le> 1100) \<or> (2000 \<le> a \<and> a < 2100) then Some 0
                      else None)\<rparr>"



definition aliased_memory :: memory where
  "aliased_memory =
     \<lparr>vis_at = [100 \<mapsto> \<lparr>nvis = 3, npol = 1, data = 1000, phasecentre = 0\<rparr>,
                 200 \<mapsto> \<lparr>nvis = 3, npol = 4, data = 1000, phasecentre = 0\<rparr>],
      byte_at = Map.empty\<rparr>"

definition aliased_copy_memory :: memory where
  "aliased_copy_memory =
     \<lparr>vis_at = [100 \<mapsto> \<lparr>nvis = 3, npol = 1, data = 1000, phasecentre = 0\<rparr>,
                 200 \<mapsto> \<lparr>nvis = 3, npol = 1, data = 1000, phasecentre = 0\<rparr>],
      byte_at = Map.empty\<rparr>"

section \<open>The configuration section of \<^verbatim>\<open>main\<close> (ical_demo.c, lines 100-127)\<close>

text \<open>
  A C \<^verbatim>\<open>double\<close> is modelled by the rational number it denotes. Each floating-point
  operation returns the rounding of its exact result; the rounding function is a
  parameter \<open>rnd\<close> of the model. The cast \<^verbatim>\<open>(double)\<close> of an \<^verbatim>\<open>int\<close> is exact. A division
  whose divisor is zero does not trap in IEEE arithmetic: it yields an infinity or a
  NaN, which is no rational number. The model ends there with \<open>DivisionByZero\<close> and
  does not follow the values any further. The driver's counts are the constants 5 and
  11, so its own divisors are 4 and 10.
\<close>

type_synonym rounding = "rat \<Rightarrow> rat"

datatype arith_error = DivisionByZero

text \<open>Line 104: \<^verbatim>\<open>fdelta = (fend - fstart) / (double)(lowconfig->nfreqs - 1)\<close>.\<close>

definition frequency_step :: "rounding \<Rightarrow> rat \<Rightarrow> rat \<Rightarrow> int \<Rightarrow> arith_error + rat" where
  "frequency_step rnd fstart fend nfreqs =
     (if of_int (nfreqs - 1) = (0 :: rat) then Inl DivisionByZero
      else Inr (rnd (rnd (fend - fstart) / of_int (nfreqs - 1))))"

text \<open>
  Lines 115-119: the loop that fills \<^verbatim>\<open>freqs\<close> and \<^verbatim>\<open>channel_bandwidth\<close>. Both arrays
  hold \<^verbatim>\<open>nfreqs\<close> doubles, so every index the loop writes is in range.
\<close>

function fill_freqs ::
  "rounding \<Rightarrow> rat \<Rightarrow> rat \<Rightarrow> int \<Rightarrow> int \<Rightarrow> rat list \<Rightarrow> rat list \<Rightarrow> rat list \<times> rat list" where
  "fill_freqs rnd fstart fdelta nfreqs i freqs channel_bandwidth =
     (if i < nfreqs then
        fill_freqs rnd fstart fdelta nfreqs (i + 1)
          (freqs[nat i := rnd (fstart + rnd (of_int i * fdelta))])
          (channel_bandwidth[nat i := fdelta])
      else (freqs, channel_bandwidth))"
  by pat_completeness auto
termination
  by (relation "measure (\<lambda>(rnd, fstart, fdelta, nfreqs, i, freqs, bw). nat (nfreqs - i))") auto

declare fill_freqs.simps [simp del]

text \<open>
  Lines 101-119 for a given channel count. The two arrays come from \<^verbatim>\<open>malloc\<close>, so
  their initial contents \<open>garbage\<close> are indeterminate.
\<close>

definition frequency_section ::
  "rounding \<Rightarrow> (nat \<Rightarrow> rat) \<Rightarrow> rat \<Rightarrow> rat \<Rightarrow> int \<Rightarrow> arith_error + (rat list \<times> rat list)" where
  "frequency_section rnd garbage fstart fend nfreqs =
     (case frequency_step rnd fstart fend nfreqs of
        Inl e \<Rightarrow> Inl e
      | Inr fdelta \<Rightarrow>
          Inr (fill_freqs rnd fstart fdelta nfreqs 0
                 (map garbage [0..<nat nfreqs]) (map garbage [0..<nat nfreqs])))"





text \<open>Lines 100, 102, 103 and 105: the constants \<^verbatim>\<open>main\<close> uses.\<close>

definition nfreqs :: int where "nfreqs = 5"
definition ntimes :: int where "ntimes = 11"
definition fstart :: rat where "fstart = 80000000"
definition fend :: rat where "fend = 120000000"

definition main_frequencies :: "rounding \<Rightarrow> (nat \<Rightarrow> rat) \<Rightarrow> arith_error + (rat list \<times> rat list)" where
  "main_frequencies rnd garbage = frequency_section rnd garbage fstart fend nfreqs"

text \<open>
  Modelled from the spec: \<^verbatim>\<open>M_PI\<close> is a macro of \<^verbatim>\<open>math.h\<close>, which is not part of the
  sources. It is the literal \<^verbatim>\<open>3.14159265358979323846\<close>, and as a \<^verbatim>\<open>double\<close> it is the
  binary64 number nearest to that decimal.
\<close>

definition M_PI :: rat where
  "M_PI = 884279719003555 / 281474976710656"







text \<open>
  Binary64 arithmetic returns the exact result whenever that result is itself a
  binary64 number, which every integer of magnitude at most \<open>2 ^ 53\<close> is.
\<close>

definition exact_on_integers :: "rounding \<Rightarrow> bool" where
  "exact_on_integers rnd \<longleftrightarrow> (\<forall>k :: int. \<bar>k\<bar> \<le> 2 ^ 53 \<longrightarrow> rnd (of_int k) = of_int k)"

text \<open>
  The rounding of binary64 arithmetic in its default mode, to nearest with ties to
  even: a number \<open>x\<close> with \<open>2 ^ e \<le> \<bar>x\<bar> < 2 ^ (e + 1)\<close> is rounded to a multiple of
  \<open>2 ^ (e - 52)\<close>, and to a multiple of \<open>2 ^ - 1074\<close> when it is subnormal. The
  definition is meant for results of magnitude below \<open>2 ^ 1024\<close>; every value of the
  configuration section is below \<open>2 ^ 27\<close>. \<open>bitlen n\<close> is the number of binary digits
  of a positive integer \<open>n\<close>, so \<open>log2_floor x\<close> is the exponent \<open>e\<close> of a positive
  \<open>x\<close>.
\<close>

definition log2_floor :: "rat \<Rightarrow> int" where
  "log2_floor x =
     (if 1 \<le> x then bitlen \<lfloor>x\<rfloor> - 1 else - bitlen (\<lceil>1 / x\<rceil> - 1))"

definition pow2 :: "int \<Rightarrow> rat" where
  "pow2 k = (if 0 \<le> k then 2 ^ nat k else 1 / 2 ^ nat (- k))"

definition round_half_even :: "rat \<Rightarrow> int" where
  "round_half_even x =
     (let f = \<lfloor>x\<rfloor>; r = x - of_int f
      in if r < 1 / 2 then f else if 1 / 2 < r then f + 1 else if even f then f else f + 1)"

definition binary64 :: rounding where
  "binary64 x =
     (if x = 0 then 0
      else let q = max (log2_floor \<bar>x\<bar> - 52) (- 1074)
           in of_int (round_half_even (x / pow2 q)) * pow2 q)"

section \<open>The driver \<^verbatim>\<open>main\<close> (ical_demo.c, lines 48-239)\<close>

text \<open>
  The driver is a straight sequence of calls. A run is modelled by the list of calls it
  makes, in the order it makes them, together with the way it ends. Every buffer the
  driver holds is named after the variable (or the \<^verbatim>\<open>lowconfig\<close> field) that points to
  it; \<open>DefaultFreqs\<close>, \<open>DefaultChannelBandwidth\<close> and \<open>DefaultTimes\<close> are the arrays that
  \<^verbatim>\<open>allocate_arlconf_default\<close> installed in \<^verbatim>\<open>lowconfig\<close> and that lines 110, 111 and 121
  free.
\<close>

datatype buf =
    Shape | Shape1 | Lowconfig
  | DefaultFreqs | DefaultChannelBandwidth | DefaultTimes
  | Freqs | ChannelBandwidth | Times
  | Vt | VtPredictfunction | VtGt | Vtpredicted
  | CindexPredict | Gt
  | GleamModel | Model | Dirty | Deconvolved | Residual | Restored

text \<open>
  The calls of \<^verbatim>\<open>main\<close>, with the arguments that identify buffers, the integer
  arguments taken from the advice, and, for a call whose result the driver stores, that
  result: \<open>Malloc b size ok\<close> and \<open>Calloc b size ok\<close> request \<open>size\<close> bytes for \<open>b\<close>
  and return a block (\<open>ok\<close>) or \<^verbatim>\<open>NULL\<close>; \<open>Mkdir status\<close> and
  \<open>Export_image_to_fits_c image status\<close> return \<open>status\<close>. \<open>Free_NULL\<close> is the call
  \<^verbatim>\<open>free(cindex_predict)\<close> of line 144, whose argument is \<^verbatim>\<open>NULL\<close>.
\<close>

datatype call =
    Malloc buf int bool
  | Calloc buf int bool
  | Free buf
  | Free_NULL
  | Arl_initialize
  | Allocate_arlconf_default buf
  | Helper_get_nbases_rmax
  | Allocate_blockvis_data buf
  | Allocate_vis_data buf
  | Arl_create_blockvisibility buf
  | Allocate_gt_data buf
  | Arl_advise_wide_field buf
  | Helper_get_image_shape_multifreq int
  | Allocate_image buf "int list"
  | Arl_create_low_test_image_from_gleam int buf
  | Mkdir int
  | Export_image_to_fits_c buf int
  | Arl_predict_function buf buf buf buf buf
  | Arl_convert_visibility_to_blockvisibility buf buf buf buf
  | Arl_create_gaintable_from_blockvisibility buf buf
  | Arl_simulate_gaintable buf
  | Arl_apply_gaintable buf buf buf
  | Arl_create_image_from_blockvisibility buf int buf
  | Arl_invert_function buf buf int buf
  | Arl_ical buf buf int buf buf buf
  | Destroy_image buf
  | Destroy_vis buf
  | Destroy_gt buf

text \<open>
  What a run receives from outside the driver: whether the allocator has memory for
  each \<^verbatim>\<open>malloc\<close> or \<^verbatim>\<open>calloc\<close> of \<^verbatim>\<open>main\<close>, the indeterminate contents of the fresh \<^verbatim>\<open>shape1\<close> block,
  the antenna count written by \<^verbatim>\<open>helper_get_nbases_rmax\<close>, the advice written by
  \<^verbatim>\<open>arl_advise_wide_field\<close>, the four integers that \<^verbatim>\<open>helper_get_image_shape_multifreq\<close>
  writes for a pixel count, and the statuses returned by \<^verbatim>\<open>mkdir\<close> and
  \<^verbatim>\<open>export_image_to_fits_c\<close>. The library's own allocators
  (\<^verbatim>\<open>allocate_arlconf_default\<close>, \<^verbatim>\<open>allocate_blockvis_data\<close>, \<^verbatim>\<open>allocate_vis_data\<close>,
  \<^verbatim>\<open>allocate_gt_data\<close>, \<^verbatim>\<open>allocate_image\<close>) are not part of the sources; they are taken to
  return their buffer, and every library call is taken to return.
\<close>

record env =
  allocator_ok :: "buf \<Rightarrow> bool"
  shape1_garbage :: "nat \<Rightarrow> int"
  nant :: int
  adv_vis_slices :: int
  adv_npixel :: int
  image_shape :: "int \<Rightarrow> int \<times> int \<times> int \<times> int"
  mkdir_status :: int
  export_status :: "buf \<Rightarrow> int"

text \<open>
  A run ends when \<^verbatim>\<open>main\<close> returns a value, or it is cut short where \<^verbatim>\<open>main\<close> writes
  through a pointer that an unchecked \<^verbatim>\<open>malloc\<close> or \<^verbatim>\<open>calloc\<close> left \<^verbatim>\<open>NULL\<close>.
\<close>

datatype outcome = Returned int | Crashed

text \<open>The value of type \<^verbatim>\<open>int\<close> (32 bits, two's complement) that has the low 32 bits of \<open>x\<close>.\<close>

definition int_wrap :: "int \<Rightarrow> int" where
  "int_wrap x = (x + 2 ^ 31) mod 2 ^ 32 - 2 ^ 31"

text \<open>
  Line 141, with \<^verbatim>\<open>sizeof(long long int) = 8\<close>: the variable \<^verbatim>\<open>cindex_nbytes\<close> is an
  \<^verbatim>\<open>int\<close> (line 61). The three products of \<^verbatim>\<open>int\<close> fields keep their low 32 bits as
  compiled, the product by \<^verbatim>\<open>sizeof\<close> is taken in \<^verbatim>\<open>size_t\<close> (64 bits), and the store
  into the \<^verbatim>\<open>int\<close> keeps the low 32 bits of that. Reduction modulo \<open>2 ^ 32\<close> commutes
  with products, so the stored value is the exact product reduced once.
\<close>

definition cindex_nbytes :: "env \<Rightarrow> int" where
  "cindex_nbytes e = int_wrap (ntimes * nant e * nant e * nfreqs * 8)"

text \<open>
  Line 143 passes the \<^verbatim>\<open>int\<close> to \<^verbatim>\<open>malloc\<close>, whose parameter is a \<^verbatim>\<open>size_t\<close>: the request
  is the value modulo \<open>2 ^ 64\<close>. No allocator returns a block of more than
  \<^verbatim>\<open>PTRDIFF_MAX\<close> bytes, so \<^verbatim>\<open>malloc\<close> returns \<^verbatim>\<open>NULL\<close> for such a request whatever
  memory there is. The other requests of \<^verbatim>\<open>main\<close> are the constants 16, 40 and 88.
  \<open>malloc_ok e b\<close>: the \<^verbatim>\<open>malloc\<close> or \<^verbatim>\<open>calloc\<close> that fills \<open>b\<close> returns a block.
\<close>

definition size_t_of :: "int \<Rightarrow> int" where
  "size_t_of x = x mod 2 ^ 64"

definition PTRDIFF_MAX :: int where
  "PTRDIFF_MAX = 2 ^ 63 - 1"

definition malloc_ok :: "env \<Rightarrow> buf \<Rightarrow> bool" where
  "malloc_ok e b \<longleftrightarrow>
     allocator_ok e b \<and> (b = CindexPredict \<longrightarrow> size_t_of (cindex_nbytes e) \<le> PTRDIFF_MAX)"

text \<open>Lines 193-195: \<^verbatim>\<open>for (i = 0; i < 4; i++) shape1[i] = shape[i]\<close>.\<close>

function copy_shape :: "nat \<Rightarrow> int list \<Rightarrow> int list \<Rightarrow> int list" where
  "copy_shape i shape shape1 =
     (if i < 4 then copy_shape (i + 1) shape (shape1[i := shape ! i]) else shape1)"
  by pat_completeness auto
termination
  by (relation "measure (\<lambda>(i, shape, shape1). 4 - i)") auto

declare copy_shape.simps [simp del]

text \<open>The contents of \<^verbatim>\<open>shape\<close> after line 167 and of \<^verbatim>\<open>shape1\<close> after line 196.\<close>

definition shape_of :: "env \<Rightarrow> int list" where
  "shape_of e = (case image_shape e (adv_npixel e) of (s0, s1, s2, s3) \<Rightarrow> [s0, s1, s2, s3])"

definition shape1_of :: "env \<Rightarrow> int list" where
  "shape1_of e = (copy_shape 0 (shape_of e) (map (shape1_garbage e) [0..<4]))[0 := 1]"

definition main :: "env \<Rightarrow> call list \<times> outcome" where
  "main e =
     (let t1 =
        [Malloc Shape 16 (malloc_ok e Shape),
         Malloc Shape1 16 (malloc_ok e Shape1),
         Arl_initialize,
         Allocate_arlconf_default Lowconfig,
         Helper_get_nbases_rmax,
         Free DefaultFreqs,
         Free DefaultChannelBandwidth,
         Malloc Freqs (nfreqs * 8) (malloc_ok e Freqs),
         Malloc ChannelBandwidth (nfreqs * 8) (malloc_ok e ChannelBandwidth)]
      in
      if 0 < nfreqs \<and> \<not> (malloc_ok e Freqs \<and> malloc_ok e ChannelBandwidth) then (t1, Crashed)
      else
      let t2 = t1 @
        [Free DefaultTimes,
         Calloc Times (ntimes * 8) (malloc_ok e Times)]
      in
      if 0 < ntimes \<and> \<not> malloc_ok e Times then (t2, Crashed)
      else
      let t3 = t2 @
        [Allocate_blockvis_data Vt,
         Allocate_blockvis_data VtPredictfunction,
         Allocate_blockvis_data VtGt,
         Allocate_vis_data Vtpredicted,
         Malloc CindexPredict (cindex_nbytes e) (malloc_ok e CindexPredict)]
      in
      if \<not> malloc_ok e CindexPredict then (t3 @ [Free_NULL], Returned 1)
      else
      let t4 = t3 @
        [Arl_create_blockvisibility Vt,
         Allocate_gt_data Gt,
         Arl_advise_wide_field Vt,
         Helper_get_image_shape_multifreq (adv_npixel e)]
      in
      if \<not> malloc_ok e Shape then (t4, Crashed)
      else
      let shape = shape_of e;
          t5 = t4 @
        [Allocate_image GleamModel shape,
         Arl_create_low_test_image_from_gleam (adv_npixel e) GleamModel,
         Mkdir (mkdir_status e),
         Export_image_to_fits_c GleamModel (export_status e GleamModel),
         Arl_predict_function Vt GleamModel Vtpredicted VtPredictfunction CindexPredict,
         Arl_convert_visibility_to_blockvisibility Vtpredicted VtPredictfunction CindexPredict Vt,
         Arl_create_gaintable_from_blockvisibility Vt Gt,
         Arl_simulate_gaintable Gt,
         Arl_apply_gaintable Vt Gt VtGt]
      in
      if \<not> malloc_ok e Shape1 then (t5, Crashed)
      else
      let shape1 = shape1_of e;
          t6 = t5 @
        [Allocate_image Model shape1,
         Arl_create_image_from_blockvisibility Vt (adv_npixel e) Model,
         Allocate_image Dirty shape1,
         Arl_invert_function Vtpredicted Model (adv_vis_slices e) Dirty,
         Export_image_to_fits_c Dirty (export_status e Dirty),
         Allocate_image Deconvolved shape1,
         Allocate_image Residual shape1,
         Allocate_image Restored shape1,
         Arl_ical VtGt Model (adv_vis_slices e) Deconvolved Residual Restored,
         Export_image_to_fits_c Deconvolved (export_status e Deconvolved),
         Export_image_to_fits_c Residual (export_status e Residual),
         Export_image_to_fits_c Restored (export_status e Restored),
         Destroy_image GleamModel,
         Destroy_image Model,
         Destroy_image Dirty,
         Destroy_image Deconvolved,
         Destroy_image Residual,
         Destroy_image Restored,
         Destroy_vis Vt,
         Destroy_vis Vtpredicted,
         Destroy_vis VtPredictfunction,
         Destroy_vis VtGt,
         Destroy_gt Gt,
         Free CindexPredict,
         Free Shape,
         Free Shape1]
      in (t6, Returned 0))"

section \<open>Observations on a run\<close>

text \<open>
  The calls into the imaging library and its wrapper (declared in \<^verbatim>\<open>arlwrap.h\<close> and
  \<^verbatim>\<open>wrap_support.h\<close>), as opposed to the calls into the C library.
\<close>

fun is_library_call :: "call \<Rightarrow> bool" where
  "is_library_call (Malloc b n ok) = False"
| "is_library_call (Calloc b n ok) = False"
| "is_library_call (Free b) = False"
| "is_library_call Free_NULL = False"
| "is_library_call (Mkdir st) = False"
| "is_library_call c = True"

text \<open>
  The stages of the pipeline, and the stage a call belongs to. Every call of
  \<^verbatim>\<open>export_image_to_fits_c\<close> belongs to the FITS export stage. The release stage is the
  section of lines 221-234.
\<close>

datatype stage =
    VisibilityCreation | WideFieldAdvice | SkyModelSynthesis | Prediction | Conversion
  | GainTableCreation | GainTableSimulation | GainTableApplication
  | ModelImageCreation | Inversion | ICAL | FitsExport | Release

fun stage_of :: "call \<Rightarrow> stage option" where
  "stage_of (Arl_create_blockvisibility v) = Some VisibilityCreation"
| "stage_of (Arl_advise_wide_field v) = Some WideFieldAdvice"
| "stage_of (Arl_create_low_test_image_from_gleam n im) = Some SkyModelSynthesis"
| "stage_of (Arl_predict_function v im vp vb ci) = Some Prediction"
| "stage_of (Arl_convert_visibility_to_blockvisibility vp vb ci v) = Some Conversion"
| "stage_of (Arl_create_gaintable_from_blockvisibility v g) = Some GainTableCreation"
| "stage_of (Arl_simulate_gaintable g) = Some GainTableSimulation"
| "stage_of (Arl_apply_gaintable v g vg) = Some GainTableApplication"
| "stage_of (Arl_create_image_from_blockvisibility v n im) = Some ModelImageCreation"
| "stage_of (Arl_invert_function v im k d) = Some Inversion"
| "stage_of (Arl_ical v im k d r s) = Some ICAL"
| "stage_of (Export_image_to_fits_c im st) = Some FitsExport"
| "stage_of (Destroy_image im) = Some Release"
| "stage_of (Destroy_vis v) = Some Release"
| "stage_of (Destroy_gt g) = Some Release"
| "stage_of (Free b) =
     (if b = CindexPredict \<or> b = Shape \<or> b = Shape1 then Some Release else None)"
| "stage_of c = None"

definition stages :: "call list \<Rightarrow> stage list" where
  "stages tr = List.map_filter stage_of tr"

text \<open>The order of the stages as claim C3 and section 4.3 of the specification give it.\<close>

definition pipeline_order :: "stage list" where
  "pipeline_order =
     [VisibilityCreation, WideFieldAdvice, SkyModelSynthesis, Prediction, Conversion,
      GainTableCreation, GainTableSimulation, GainTableApplication,
      ModelImageCreation, Inversion, ICAL, FitsExport, Release]"

text \<open>
  The stage of every stage call of a run that goes through the whole pipeline, call by
  call: the sky model is exported right after its synthesis (line 174), the dirty image
  right after the inversion (line 205), the three ICAL outputs after ICAL (lines
  215-217), and the release is that of fourteen buffers.
\<close>

definition pipeline_stages :: "stage list" where
  "pipeline_stages =
     [VisibilityCreation, WideFieldAdvice, SkyModelSynthesis, FitsExport,
      Prediction, Conversion,
      GainTableCreation, GainTableSimulation, GainTableApplication,
      ModelImageCreation, Inversion, FitsExport,
      ICAL, FitsExport, FitsExport, FitsExport] @ replicate 14 Release"

text \<open>The stages other than the FITS export, in the order in which such a run takes them.\<close>

definition stages_but_export :: "call list \<Rightarrow> stage list" where
  "stages_but_export tr = remdups_adj (filter (\<lambda>s. s \<noteq> FitsExport) (stages tr))"

text \<open>\<open>precedes a b tr\<close>: the call \<open>b\<close> occurs in \<open>tr\<close> after the first occurrence of \<open>a\<close>.\<close>

fun precedes :: "'a \<Rightarrow> 'a \<Rightarrow> 'a list \<Rightarrow> bool" where
  "precedes a b [] = False"
| "precedes a b (x # xs) = (if x = a then b \<in> set xs else precedes a b xs)"

text \<open>The calls that follow the first occurrence of a call.\<close>

fun after_call :: "'a \<Rightarrow> 'a list \<Rightarrow> 'a list" where
  "after_call a [] = []"
| "after_call a (x # xs) = (if x = a then xs else after_call a xs)"

text \<open>
  The buffers a call allocates and the buffers it releases.

  Modelled from the spec: \<^verbatim>\<open>allocate_arlconf_default\<close> is not part of the sources; it
  returns the configuration together with the default frequency, bandwidth and time
  arrays that the driver replaces.
\<close>

fun allocates :: "call \<Rightarrow> buf list" where
  "allocates (Malloc b n ok) = (if ok then [b] else [])"
| "allocates (Calloc b n ok) = (if ok then [b] else [])"
| "allocates (Allocate_arlconf_default b) =
     [b, DefaultFreqs, DefaultChannelBandwidth, DefaultTimes]"
| "allocates (Allocate_blockvis_data b) = [b]"
| "allocates (Allocate_vis_data b) = [b]"
| "allocates (Allocate_gt_data b) = [b]"
| "allocates (Allocate_image b s) = [b]"
| "allocates c = []"

fun releases :: "call \<Rightarrow> buf list" where
  "releases (Free b) = [b]"
| "releases (Destroy_image b) = [b]"
| "releases (Destroy_vis b) = [b]"
| "releases (Destroy_gt b) = [b]"
| "releases c = []"

definition allocated :: "call list \<Rightarrow> buf list" where
  "allocated tr = concat (map allocates tr)"

definition released :: "call list \<Rightarrow> buf list" where
  "released tr = concat (map releases tr)"

datatype category = Config | Image | Visibility | GainTable | Scratch

fun category_of :: "buf \<Rightarrow> category" where
  "category_of Shape = Scratch"
| "category_of Shape1 = Scratch"
| "category_of CindexPredict = Scratch"
| "category_of Vt = Visibility"
| "category_of VtPredictfunction = Visibility"
| "category_of VtGt = Visibility"
| "category_of Vtpredicted = Visibility"
| "category_of Gt = GainTable"
| "category_of GleamModel = Image"
| "category_of Model = Image"
| "category_of Dirty = Image"
| "category_of Deconvolved = Image"
| "category_of Residual = Image"
| "category_of Restored = Image"
| "category_of b = Config"

text \<open>The buffers of lines 221-234, in the order in which these lines release them.\<close>

definition cleanup_order :: "buf list" where
  "cleanup_order =
     [GleamModel, Model, Dirty, Deconvolved, Residual, Restored,
      Vt, Vtpredicted, VtPredictfunction, VtGt, Gt, CindexPredict, Shape, Shape1]"

text \<open>The images a run allocates, each with the shape it is given.\<close>

fun image_allocation :: "call \<Rightarrow> (buf \<times> int list) option" where
  "image_allocation (Allocate_image b s) = Some (b, s)"
| "image_allocation c = None"

definition image_allocations :: "call list \<Rightarrow> (buf \<times> int list) list" where
  "image_allocations tr = List.map_filter image_allocation tr"

text \<open>A call with the status it returned replaced by 0.\<close>

fun erase_status :: "call \<Rightarrow> call" where
  "erase_status (Mkdir st) = Mkdir 0"
| "erase_status (Export_image_to_fits_c im st) = Export_image_to_fits_c im 0"
| "erase_status c = c"

text \<open>Every \<^verbatim>\<open>malloc\<close> and \<^verbatim>\<open>calloc\<close> of the driver returns a block.\<close>

definition allocations_succeed :: "env \<Rightarrow> bool" where
  "allocations_succeed e \<longleftrightarrow>
     malloc_ok e Shape \<and> malloc_ok e Shape1 \<and> malloc_ok e Freqs \<and>
     malloc_ok e ChannelBandwidth \<and> malloc_ok e Times \<and> malloc_ok e CindexPredict"

text \<open>The run gets as far as the allocation of line 143.\<close>

definition reaches_cindex_allocation :: "env \<Rightarrow> bool" where
  "reaches_cindex_allocation e \<longleftrightarrow>
     malloc_ok e Freqs \<and> malloc_ok e ChannelBandwidth \<and> malloc_ok e Times"

section \<open>Example runs\<close>

definition every_malloc :: "buf \<Rightarrow> bool" where
  "every_malloc b = True"

definition every_malloc_but_cindex :: "buf \<Rightarrow> bool" where
  "every_malloc_but_cindex b = (b \<noteq> CindexPredict)"

definition zero_garbage :: "nat \<Rightarrow> int" where
  "zero_garbage i = 0"

definition example_image_shape :: "int \<Rightarrow> int \<times> int \<times> int \<times> int" where
  "example_image_shape npixel = (5, 1, npixel, npixel)"

definition status_ok :: "buf \<Rightarrow> int" where
  "status_ok b = 0"

definition status_failed :: "buf \<Rightarrow> int" where
  "status_failed b = 104"

text \<open>A run in which nothing fails.\<close>

definition env_ok :: env where
  "env_ok =
     \<lparr>allocator_ok = every_malloc, shape1_garbage = zero_garbage, nant = 166,
      adv_vis_slices = 11, adv_npixel = 512, image_shape = example_image_shape,
      mkdir_status = 0, export_status = status_ok\<rparr>"

text \<open>A run in which \<^verbatim>\<open>mkdir\<close> and every FITS export report a failure.\<close>

definition env_status_failed :: env where
  "env_status_failed = env_ok\<lparr>mkdir_status := - 1, export_status := status_failed\<rparr>"

text \<open>A run in which the allocation of line 143 returns \<^verbatim>\<open>NULL\<close>.\<close>

definition env_cindex_fails :: env where
  "env_cindex_fails = env_ok\<lparr>allocator_ok := every_malloc_but_cindex\<rparr>"

text \<open>
  A run with no antenna under the radius cutoff: line 141 computes a size of 0, and
  \<^verbatim>\<open>malloc(0)\<close> returns a block, as the C library may.
\<close>

definition env_zero_size :: env where
  "env_zero_size = env_ok\<lparr>nant := 0\<rparr>"

text \<open>
  A run with 2210 antennas and an allocator that has memory for everything: line 141
  computes 2149004000, which the \<^verbatim>\<open>int\<close> holds as -2145963296.
\<close>

definition env_negative_size :: env where
  "env_negative_size = env_ok\<lparr>nant := 2210\<rparr>"

text \<open>A run in which the \<^verbatim>\<open>malloc\<close> of line 50 returns \<^verbatim>\<open>NULL\<close>.\<close>

definition every_malloc_but_shape :: "buf \<Rightarrow> bool" where
  "every_malloc_but_shape b = (b \<noteq> Shape)"

definition env_shape_fails :: env where
  "env_shape_fails = env_ok\<lparr>allocator_ok := every_malloc_but_shape\<rparr>"

text \<open>Rounding that changes nothing, and arrays whose fresh contents are all 0.\<close>

definition no_rounding :: rounding where
  "no_rounding x = x"

definition zero_doubles :: "nat \<Rightarrow> rat" where
  "zero_doubles i = 0"

section \<open>Properties of the verification helper\<close>

text \<open>The size of line 35 is defined exactly when it and its two products fit an \<^verbatim>\<open>int\<close>.\<close>

lemma ARLVisDataSize_eq:
  "ARLVisDataSize v = (if size_fits v then Some (80 + 32 * npol v * nvis v) else None)"
  by (auto simp: ARLVisDataSize_def size_fits_def int_mul_def int_add_def int_fits_def)


text \<open>
  The loop without any assumption on what can be read: it stops with 4 at the first
  offset where both bytes can be read and differ, with 0 at the end of an extent on
  which the blocks agree, and has no result when it reaches a byte that cannot be read.
\<close>

lemma compare_bytes_eq:
  "compare_bytes m p q i n =
     (if \<exists>k. i \<le> k \<and> k < n \<and> agree_range m p q i k \<and> differ_at m p q k then Some 4
      else if agree_range m p q i n then Some 0
      else None)"
proof (induction m p q i n rule: compare_bytes.induct)
  case (1 m p q i n)
  show ?case
  proof (cases "i < n")
    case False
    then show ?thesis
      by (subst compare_bytes.simps) (auto simp: agree_range_def)
  next
    case True
    show ?thesis
    proof (cases "byte_at m (p + nat i)")
      case None
      have "\<not> agree_range m p q i k" if "i < k" for k
        using that None by (auto simp: agree_range_def)
      moreover have "\<not> differ_at m p q i"
        using None by (simp add: differ_at_def)
      ultimately have "\<not> (\<exists>k. i \<le> k \<and> k < n \<and> agree_range m p q i k \<and> differ_at m p q k)"
        and "\<not> agree_range m p q i n"
        using True by (force simp: order_le_less)+
      then show ?thesis
        using True None by (subst compare_bytes.simps) simp
    next
      case (Some x)
      note x = this
      show ?thesis
      proof (cases "byte_at m (q + nat i)")
        case None
        have "\<not> agree_range m p q i k" if "i < k" for k
          using that None x by (auto simp: agree_range_def)
        moreover have "\<not> differ_at m p q i"
          using None by (simp add: differ_at_def)
        ultimately have "\<not> (\<exists>k. i \<le> k \<and> k < n \<and> agree_range m p q i k \<and> differ_at m p q k)"
          and "\<not> agree_range m p q i n"
          using True by (force simp: order_le_less)+
        then show ?thesis
          using True None x by (subst compare_bytes.simps) simp
      next
        case (Some y)
        note y = this
        show ?thesis
        proof (cases "x = y")
          case False
          have "agree_range m p q i i"
            by (auto simp: agree_range_def)
          moreover have "differ_at m p q i"
            using x y False by (simp add: differ_at_def)
          ultimately have "\<exists>k. i \<le> k \<and> k < n \<and> agree_range m p q i k \<and> differ_at m p q k"
            using True by blast
          then show ?thesis
            using True x y False by (subst compare_bytes.simps) simp
        next
          case same: True
          have step: "compare_bytes m p q i n = compare_bytes m p q (i + 1) n"
            using True x y same by (subst compare_bytes.simps) simp
          have shift: "agree_range m p q i k \<longleftrightarrow> agree_range m p q (i + 1) k" for k
          proof
            assume "agree_range m p q i k"
            then show "agree_range m p q (i + 1) k"
              unfolding agree_range_def by (metis add_le_imp_le_right le_add_same_cancel1 order_trans zero_le_one)
          next
            assume r: "agree_range m p q (i + 1) k"
            show "agree_range m p q i k"
              unfolding agree_range_def
            proof (intro allI impI)
              fix j assume j: "i \<le> j \<and> j < k"
              show "byte_at m (p + nat j) \<noteq> None \<and> byte_at m (p + nat j) = byte_at m (q + nat j)"
              proof (cases "j = i")
                case True
                then show ?thesis using x y same by simp
              next
                case False
                with j have "i + 1 \<le> j \<and> j < k" by simp
                with r show ?thesis unfolding agree_range_def by blast
              qed
            qed
          qed
          have no_diff: "\<not> differ_at m p q i"
            using x y same by (simp add: differ_at_def)
          have ex: "(\<exists>k. i \<le> k \<and> k < n \<and> agree_range m p q i k \<and> differ_at m p q k) \<longleftrightarrow>
                (\<exists>k. i + 1 \<le> k \<and> k < n \<and> agree_range m p q (i + 1) k \<and> differ_at m p q k)"
          proof
            assume "\<exists>k. i \<le> k \<and> k < n \<and> agree_range m p q i k \<and> differ_at m p q k"
            then obtain k where k: "i \<le> k" "k < n" "agree_range m p q i k" "differ_at m p q k"
              by blast
            with no_diff have "k \<noteq> i" by auto
            with k shift show "\<exists>k. i + 1 \<le> k \<and> k < n \<and> agree_range m p q (i + 1) k \<and> differ_at m p q k"
              by (intro exI [of _ k]) simp
          next
            assume "\<exists>k. i + 1 \<le> k \<and> k < n \<and> agree_range m p q (i + 1) k \<and> differ_at m p q k"
            then obtain k where "i + 1 \<le> k" "k < n" "agree_range m p q (i + 1) k" "differ_at m p q k"
              by blast
            with shift show "\<exists>k. i \<le> k \<and> k < n \<and> agree_range m p q i k \<and> differ_at m p q k"
              by (intro exI [of _ k]) simp
          qed
          from "1.IH" [OF True x y] same
          have "compare_bytes m p q (i + 1) n =
              (if \<exists>k. i + 1 \<le> k \<and> k < n \<and> agree_range m p q (i + 1) k \<and> differ_at m p q k
               then Some 4
               else if agree_range m p q (i + 1) n then Some 0
               else None)"
            by simp
          then show ?thesis
            unfolding step ex shift [of n] .
        qed
      qed
    qed
  qed
qed

text \<open>The helper on two handles that point to structs, without any other assumption.\<close>

lemma verify_arl_copy_eq:
  assumes "vis_at m vt = Some a" and "vis_at m vtmp = Some b"
  shows "verify_arl_copy m vt vtmp =
           (if vt = vtmp then Some 1
            else if nvis a \<noteq> nvis b \<or> npol a \<noteq> npol b then Some 2
            else if data a = data b then Some 3
            else if \<not> size_fits a then None
            else if first_difference m (data a) (data b) (80 + 32 * npol a * nvis a) then Some 4
            else if agree_range m (data a) (data b) 0 (80 + 32 * npol a * nvis a) then Some 0
            else None)"
  using assms
  by (auto simp: verify_arl_copy_def ARLVisDataSize_eq compare_bytes_eq first_difference_def)




text \<open>The two results above, for use where the helper is run on these memories again.\<close>

lemma flipped_byte_result:
  "verify_arl_copy flipped_byte_memory 100 200 = Some 4"
proof -
  let ?a = "\<lparr>nvis = 2, npol = 1, data = 1000, phasecentre = 0\<rparr>"
  let ?b = "\<lparr>nvis = 2, npol = 1, data = 2000, phasecentre = 0\<rparr>"
  have a: "vis_at flipped_byte_memory 100 = Some ?a"
    and b: "vis_at flipped_byte_memory 200 = Some ?b"
    by (simp_all add: flipped_byte_memory_def)
  have fits: "size_fits ?a"
    by (simp add: size_fits_def)
  have "agree_range flipped_byte_memory 1000 2000 0 100"
    by (auto simp: agree_range_def flipped_byte_memory_def)
  moreover have "differ_at flipped_byte_memory 1000 2000 100"
    by (simp add: differ_at_def flipped_byte_memory_def)
  ultimately have "first_difference flipped_byte_memory 1000 2000 144"
    unfolding first_difference_def by (intro exI [of _ 100]) simp
  then show ?thesis
    using verify_arl_copy_eq [OF a b] fits by simp
qed

text \<open>
  Claim C10. The checks are made in the order handle identity, shape, data pointer,
  content. Two identical handles give 1 in every memory, also in one where no struct
  and no byte can be read, so no field of either buffer is read. Two distinct handles
  whose \<^verbatim>\<open>nvis\<close> or \<^verbatim>\<open>npol\<close> differ give 2, whether or not their data pointers alias,
  and never 3. Two distinct handles of equal shape whose data pointers alias give 3
  in every memory, whatever the bytes are and whether they can be read. The content
  results 4 and 0 occur only for distinct handles of equal shape and distinct data.
\<close>

theorem verify_arl_copy_precedence:
  "(\<forall>m'. verify_arl_copy m' vt vt = Some 1) \<and>
   (vt \<noteq> vtmp \<and> vis_at m vt = Some a \<and> vis_at m vtmp = Some b \<longrightarrow>
      (nvis a \<noteq> nvis b \<or> npol a \<noteq> npol b \<longrightarrow> verify_arl_copy m vt vtmp = Some 2) \<and>
      (nvis a = nvis b \<and> npol a = npol b \<and> data a = data b \<longrightarrow>
         verify_arl_copy m vt vtmp = Some 3) \<and>
      (verify_arl_copy m vt vtmp = Some 4 \<or> verify_arl_copy m vt vtmp = Some 0 \<longrightarrow>
         nvis a = nvis b \<and> npol a = npol b \<and> data a \<noteq> data b))"
  by (auto simp: verify_arl_copy_def)

text \<open>
  The helper run on a handle and itself, on two handles that share their data block
  and differ in \<^verbatim>\<open>npol\<close>, on two that share it and have the same shape, and on two
  buffers that differ in one byte.
\<close>

theorem verify_arl_copy_precedence_witness:
  "verify_arl_copy aliased_memory 100 100 = Some 1 \<and>
   verify_arl_copy aliased_memory 100 200 = Some 2 \<and>
   verify_arl_copy aliased_copy_memory 100 200 = Some 3 \<and>
   verify_arl_copy flipped_byte_memory 100 200 = Some 4 \<and>
   data \<lparr>nvis = 2, npol = 1, data = 1000, phasecentre = 0\<rparr> \<noteq>
     data \<lparr>nvis = 2, npol = 1, data = 2000, phasecentre = 0\<rparr>"
  using
    verify_arl_copy_precedence
      [of 100 200 aliased_memory "\<lparr>nvis = 3, npol = 1, data = 1000, phasecentre = 0\<rparr>"
          "\<lparr>nvis = 3, npol = 4, data = 1000, phasecentre = 0\<rparr>"]
    verify_arl_copy_precedence
      [of 100 200 aliased_copy_memory "\<lparr>nvis = 3, npol = 1, data = 1000, phasecentre = 0\<rparr>"
          "\<lparr>nvis = 3, npol = 1, data = 1000, phasecentre = 0\<rparr>"]
    verify_arl_copy_precedence
      [of 100 200 flipped_byte_memory "\<lparr>nvis = 2, npol = 1, data = 1000, phasecentre = 0\<rparr>"
          "\<lparr>nvis = 2, npol = 1, data = 2000, phasecentre = 0\<rparr>"]
    flipped_byte_result
  by (simp add: aliased_memory_def aliased_copy_memory_def flipped_byte_memory_def)

section \<open>Properties of the configuration section\<close>

lemma exact_on_integers_numeral:
  assumes "exact_on_integers rnd" and "(numeral w :: int) \<le> 2 ^ 53"
  shows "rnd (numeral w) = numeral w"
proof -
  have "\<bar>numeral w :: int\<bar> \<le> 2 ^ 53"
    using assms(2) by simp
  then have "rnd (of_int (numeral w)) = of_int (numeral w)"
    using assms(1) unfolding exact_on_integers_def by blast
  then show ?thesis by simp
qed

lemma exact_on_integers_zero:
  assumes "exact_on_integers rnd"
  shows "rnd 0 = 0"
proof -
  have "rnd (of_int 0) = of_int 0"
    using assms unfolding exact_on_integers_def by (metis abs_zero zero_le_numeral zero_le_power)
  then show ?thesis by simp
qed

lemma exact_on_integers_no_rounding: "exact_on_integers no_rounding"
  by (simp add: exact_on_integers_def no_rounding_def)

lemma frequency_step_main:
  assumes "exact_on_integers rnd"
  shows "frequency_step rnd fstart fend nfreqs = Inr 10000000"
  using assms
  by (simp add: frequency_step_def fstart_def fend_def nfreqs_def exact_on_integers_numeral)

text \<open>
  Claim C4. The frequency list the driver builds for \<open>fstart = 0.8e8\<close>,
  \<open>fend = 1.2e8\<close> and \<open>nfreqs = 5\<close> is exactly \<open>[0.8e8, 0.9e8, 1.0e8, 1.1e8, 1.2e8]\<close>,
  and every entry of the channel-bandwidth list is \<open>1.0e7\<close>. Every exact result in
  this computation is an integer below \<open>2 ^ 53\<close>, so the lists are the same for every
  rounding that returns such integers unchanged, whatever the fresh arrays held.
\<close>

theorem main_frequency_list:
  assumes "exact_on_integers rnd"
  shows "main_frequencies rnd garbage =
           Inr ([80000000, 90000000, 100000000, 110000000, 120000000],
                [10000000, 10000000, 10000000, 10000000, 10000000])"
proof -
  have step: "frequency_step rnd fstart fend nfreqs = Inr 10000000"
    using assms by (rule frequency_step_main)
  have arrays: "map garbage [0..<nat nfreqs] =
      [garbage 0, garbage 1, garbage 2, garbage 3, garbage 4]"
    by (simp add: nfreqs_def upt_rec eval_nat_numeral)
  have loop: "fill_freqs rnd 80000000 10000000 5 0
        [garbage 0, garbage 1, garbage 2, garbage 3, garbage 4]
        [garbage 0, garbage 1, garbage 2, garbage 3, garbage 4] =
      ([80000000, 90000000, 100000000, 110000000, 120000000],
       [10000000, 10000000, 10000000, 10000000, 10000000])"
    using assms
    by (simp add: fill_freqs.simps exact_on_integers_numeral exact_on_integers_zero)
  show ?thesis
    unfolding main_frequencies_def frequency_section_def step arrays
    using loop by (simp add: fstart_def nfreqs_def)
qed

text \<open>The frequency section run without rounding on arrays of zeros.\<close>

theorem main_frequency_list_witness:
  "exact_on_integers no_rounding \<and>
   main_frequencies no_rounding zero_doubles =
     Inr ([80000000, 90000000, 100000000, 110000000, 120000000],
          [10000000, 10000000, 10000000, 10000000, 10000000])"
  using main_frequency_list [OF exact_on_integers_no_rounding, of zero_doubles]
    exact_on_integers_no_rounding
  by simp

text \<open>
  The exponent that \<open>log2_floor\<close> computes for a number that is at least 1, and with it
  the fact that binary64 rounding returns integers of magnitude at most \<open>2 ^ 53\<close>
  unchanged, so \<open>exact_on_integers\<close> holds of \<open>binary64\<close>.
\<close>

lemma round_half_even_of_int: "round_half_even (of_int n) = n"
  by (simp add: round_half_even_def)

lemma log2_floor_bounds:
  assumes "1 \<le> x"
  shows "0 \<le> log2_floor x" and "2 ^ nat (log2_floor x) \<le> x" and "x < 2 ^ (nat (log2_floor x) + 1)"
proof -
  let ?n = "\<lfloor>x\<rfloor>"
  have n: "0 < ?n"
    using assms by simp
  from bitlen_bounds [OF n]
  have lo: "2 ^ nat (bitlen ?n - 1) \<le> ?n" and hi: "?n < 2 ^ nat (bitlen ?n)"
    by simp_all
  have pos: "0 < bitlen ?n"
    using n bitlen_eq_zero_iff [of ?n] bitlen_nonneg [of ?n] by linarith
  have e: "log2_floor x = bitlen ?n - 1"
    using assms by (simp add: log2_floor_def)
  show "0 \<le> log2_floor x"
    using pos e by simp
  have "(of_int ?n :: rat) \<le> x"
    by simp
  moreover have "(2 :: rat) ^ nat (bitlen ?n - 1) \<le> of_int ?n"
    using lo by (metis of_int_le_iff of_int_numeral of_int_power)
  ultimately show "2 ^ nat (log2_floor x) \<le> x"
    unfolding e by (rule order_trans [rotated])
  have "?n + 1 \<le> 2 ^ nat (bitlen ?n)"
    using hi by simp
  then have "(of_int (?n + 1) :: rat) \<le> 2 ^ nat (bitlen ?n)"
    by (metis of_int_le_iff of_int_numeral of_int_power)
  moreover have "x < of_int (?n + 1)"
    by simp linarith
  moreover have "nat (bitlen ?n - 1) + 1 = nat (bitlen ?n)"
    using pos by simp
  ultimately show "x < 2 ^ (nat (log2_floor x) + 1)"
    unfolding e by simp
qed

lemma binary64_top:
  "binary64 9007199254740992 = 9007199254740992"
  "binary64 (- 9007199254740992) = - 9007199254740992"
  by code_simp+

lemma binary64_of_int:
  assumes "\<bar>k\<bar> \<le> 2 ^ 53"
  shows "binary64 (of_int k) = of_int k"
proof (cases "k = 0")
  case True
  then show ?thesis by (simp add: binary64_def)
next
  case False
  let ?x = "\<bar>of_int k :: rat\<bar>"
  let ?e = "log2_floor ?x"
  have "1 \<le> \<bar>k\<bar>"
    using False by simp
  then have "(1 :: rat) \<le> of_int \<bar>k\<bar>"
    by (simp only: of_int_1_le_iff)
  then have x1: "1 \<le> ?x"
    by simp
  note b = log2_floor_bounds [OF x1]
  have "(2 :: rat) ^ nat ?e \<le> 2 ^ 53"
  proof -
    have "?x \<le> 2 ^ 53"
      using assms by (metis of_int_abs of_int_le_iff of_int_numeral of_int_power)
    with b(2) show ?thesis by linarith
  qed
  then have e53: "nat ?e \<le> 53"
    using power_le_imp_le_exp [of "2 :: rat" "nat ?e" 53] by simp
  have q: "max (?e - 52) (- 1074) = ?e - 52"
    using b(1) by simp
  have nz: "(of_int k :: rat) \<noteq> 0"
    using False by simp
  have unf: "binary64 (of_int k) =
      of_int (round_half_even (of_int k / pow2 (?e - 52))) * pow2 (?e - 52)"
    unfolding binary64_def Let_def q using nz by (simp only: if_False)
  show ?thesis
  proof (cases "?e \<le> 52")
    case True
    then have p: "pow2 (?e - 52) = 1 / 2 ^ nat (52 - ?e)"
      by (cases "?e = 52") (simp_all add: pow2_def)
    have "of_int k / pow2 (?e - 52) = (of_int (k * 2 ^ nat (52 - ?e)) :: rat)"
      unfolding p by simp
    then have "round_half_even (of_int k / pow2 (?e - 52)) = k * 2 ^ nat (52 - ?e)"
      by (simp only: round_half_even_of_int)
    then have "binary64 (of_int k) = of_int (k * 2 ^ nat (52 - ?e)) * (1 / 2 ^ nat (52 - ?e))"
      unfolding unf p by (simp only:)
    also have "\<dots> = of_int k"
      by simp
    finally show ?thesis .
  next
    case False
    with e53 b(1) have e: "?e = 53" by linarith
    have "(2 :: rat) ^ nat ?e \<le> ?x"
      by (rule b(2))
    then have "(2 :: rat) ^ 53 \<le> ?x"
      unfolding e by simp
    moreover have "?x \<le> 2 ^ 53"
      using assms by (metis of_int_abs of_int_le_iff of_int_numeral of_int_power)
    ultimately have "?x = 2 ^ 53"
      by (rule order_antisym [rotated])
    then have "(of_int \<bar>k\<bar> :: rat) = of_int (2 ^ 53)"
      by simp
    then have "\<bar>k\<bar> = 2 ^ 53"
      by (simp only: of_int_eq_iff)
    then have "\<bar>k\<bar> = 9007199254740992"
      by simp
    then consider "k = 9007199254740992" | "k = - 9007199254740992"
      by linarith
    then show ?thesis
    proof cases
      case 1
      show ?thesis unfolding 1 using binary64_top(1) by simp
    next
      case 2
      show ?thesis unfolding 2 using binary64_top(2) by simp
    qed
  qed
qed

lemma exact_on_integers_binary64: "exact_on_integers binary64"
  by (simp add: exact_on_integers_def binary64_of_int del: power_numeral)

text \<open>
  The constants of the time section under binary64 rounding: \<^verbatim>\<open>M_PI\<close> is the double
  nearest to its decimal literal, and the list has the eleven entries below.
\<close>

lemma M_PI_binary64:
  "binary64 (314159265358979323846 / 100000000000000000000) = M_PI"
  by code_simp











section \<open>Properties of the driver\<close>

lemma shape1_of_eq:
  assumes "image_shape e (adv_npixel e) = (s0, s1, s2, s3)"
  shows "shape_of e = [s0, s1, s2, s3]" and "shape1_of e = [1, s1, s2, s3]"
  using assms
  by (simp_all add: shape1_of_def shape_of_def copy_shape.simps upt_rec eval_nat_numeral)

lemmas run_simps =
  main_def Let_def stages_def allocated_def released_def
  image_allocations_def nfreqs_def ntimes_def

text \<open>
  The size of line 141 is a value of type \<^verbatim>\<open>int\<close>, and the allocation of line 143
  returns a block exactly when the allocator has the memory and that value is not
  negative: a negative \<^verbatim>\<open>int\<close> is a request of at least \<open>2 ^ 64 - 2 ^ 31\<close> bytes.
\<close>

lemma int_wrap_range: "- (2 ^ 31) \<le> int_wrap x \<and> int_wrap x < 2 ^ 31"
  by (simp add: int_wrap_def)

lemma int_wrap_fits: "int_fits x \<Longrightarrow> int_wrap x = x"
  by (simp add: int_wrap_def int_fits_def)

lemma int_wrap_residue: "(int_wrap x - x) mod 4294967296 = 0"
proof -
  have "int_wrap x - x = (x + 2147483648) mod 4294967296 - (x + 2147483648)"
    by (simp add: int_wrap_def)
  also have "\<dots> = - (4294967296 * ((x + 2147483648) div 4294967296))"
    by (simp add: minus_mult_div_eq_mod [symmetric])
  finally show ?thesis
    by simp
qed

lemma malloc_ok_cindex:
  "malloc_ok e CindexPredict \<longleftrightarrow> allocator_ok e CindexPredict \<and> 0 \<le> cindex_nbytes e"
proof -
  let ?x = "cindex_nbytes e"
  have range: "- (2 ^ 31) \<le> ?x \<and> ?x < 2 ^ 31"
    unfolding cindex_nbytes_def by (rule int_wrap_range)
  have "size_t_of ?x \<le> PTRDIFF_MAX \<longleftrightarrow> 0 \<le> ?x"
  proof (cases "0 \<le> ?x")
    case True
    with range have "?x mod 2 ^ 64 = ?x"
      by simp
    with True range show ?thesis
      by (simp add: size_t_of_def PTRDIFF_MAX_def)
  next
    case False
    have "?x mod 2 ^ 64 = (?x + 2 ^ 64) mod 2 ^ 64"
      by simp
    also have "\<dots> = ?x + 2 ^ 64"
      using range False by (intro mod_pos_pos_trivial) simp_all
    finally have "?x mod 2 ^ 64 = ?x + 2 ^ 64" .
    with False range show ?thesis
      by (simp add: size_t_of_def PTRDIFF_MAX_def)
  qed
  then show ?thesis
    by (simp add: malloc_ok_def)
qed

lemma malloc_ok_other: "b \<noteq> CindexPredict \<Longrightarrow> malloc_ok e b = allocator_ok e b"
  by (simp add: malloc_ok_def)

lemma malloc_ok_status [simp]:
  "malloc_ok (e\<lparr>mkdir_status := s, export_status := t\<rparr>) b = malloc_ok e b"
  by (simp add: malloc_ok_def cindex_nbytes_def)

lemma cindex_nbytes_status [simp]:
  "cindex_nbytes (e\<lparr>mkdir_status := s, export_status := t\<rparr>) = cindex_nbytes e"
  by (simp add: cindex_nbytes_def)

lemma env_ok_simps:
  "malloc_ok env_ok b" "nant env_ok = 166" "adv_vis_slices env_ok = 11" "adv_npixel env_ok = 512"
  "mkdir_status env_ok = 0" "export_status env_ok b = 0" "image_shape env_ok n = (5, 1, n, n)"
  "allocations_succeed env_ok" "cindex_nbytes env_ok = 12124640"
  by (simp_all add: env_ok_def every_malloc_def status_ok_def example_image_shape_def
      allocations_succeed_def malloc_ok_def cindex_nbytes_def int_wrap_def size_t_of_def
      PTRDIFF_MAX_def nfreqs_def ntimes_def)

lemma env_failed_simps:
  "malloc_ok env_status_failed b" "adv_vis_slices env_status_failed = 11"
  "mkdir_status env_status_failed = - 1" "export_status env_status_failed b = 104"
  "allocations_succeed env_status_failed"
  by (simp_all add: env_status_failed_def env_ok_def every_malloc_def status_failed_def
      allocations_succeed_def malloc_ok_def cindex_nbytes_def int_wrap_def size_t_of_def
      PTRDIFF_MAX_def nfreqs_def ntimes_def)

lemma env_cindex_fails_simps:
  "malloc_ok env_cindex_fails b \<longleftrightarrow> b \<noteq> CindexPredict"
  "nant env_cindex_fails = 166"
  "reaches_cindex_allocation env_cindex_fails"
  "cindex_nbytes env_cindex_fails = 12124640"
  by (auto simp: env_cindex_fails_def env_ok_def every_malloc_but_cindex_def
      reaches_cindex_allocation_def malloc_ok_def cindex_nbytes_def int_wrap_def
      nfreqs_def ntimes_def)

lemma env_zero_size_simps:
  "malloc_ok env_zero_size b" "nant env_zero_size = 0" "adv_vis_slices env_zero_size = 11"
  "cindex_nbytes env_zero_size = 0" "allocator_ok env_zero_size b"
  by (simp_all add: env_zero_size_def env_ok_def every_malloc_def malloc_ok_def
      cindex_nbytes_def int_wrap_def size_t_of_def PTRDIFF_MAX_def)

lemma env_negative_size_simps:
  "allocator_ok env_negative_size b" "nant env_negative_size = 2210"
  "cindex_nbytes env_negative_size = - 2145963296"
  "malloc_ok env_negative_size b \<longleftrightarrow> b \<noteq> CindexPredict"
  "reaches_cindex_allocation env_negative_size"
  by (simp_all add: env_negative_size_def env_ok_def every_malloc_def malloc_ok_def
      cindex_nbytes_def int_wrap_def size_t_of_def PTRDIFF_MAX_def nfreqs_def ntimes_def
      reaches_cindex_allocation_def)

text \<open>
  The result of the \<^verbatim>\<open>malloc\<close> of line 50 is not tested: when it is \<^verbatim>\<open>NULL\<close> the run goes
  on through \<^verbatim>\<open>arl_initialize\<close> and the first two stages, and is cut short where
  \<^verbatim>\<open>shape\<close> is written (line 167).
\<close>

lemma unchecked_shape_allocation:
  "\<not> malloc_ok env_shape_fails Shape \<and>
   precedes (Malloc Shape 16 False) Arl_initialize (fst (main env_shape_fails)) \<and>
   stages (fst (main env_shape_fails)) = [VisibilityCreation, WideFieldAdvice] \<and>
   snd (main env_shape_fails) = Crashed"
proof -
  have "malloc_ok env_shape_fails b \<longleftrightarrow> b \<noteq> Shape" for b
    by (simp add: env_shape_fails_def env_ok_def every_malloc_but_shape_def malloc_ok_def
        cindex_nbytes_def int_wrap_def size_t_of_def PTRDIFF_MAX_def nfreqs_def ntimes_def)
  then show ?thesis
    by (simp add: run_simps)
qed

text \<open>
  Claim C3, as stated, fails: in the run where nothing fails, the FITS export is not one
  stage that follows ICAL. \<^verbatim>\<open>export_image_to_fits_c\<close> is called five times: for the sky
  model before the prediction (line 174), for the dirty image before ICAL (line 205),
  and for the three ICAL outputs after ICAL (lines 215-217).
\<close>

theorem fits_export_order_counterexample:
  "snd (main env_ok) = Returned 0 \<and>
   precedes (Export_image_to_fits_c GleamModel 0)
     (Arl_predict_function Vt GleamModel Vtpredicted VtPredictfunction CindexPredict)
     (fst (main env_ok)) \<and>
   precedes (Export_image_to_fits_c Dirty 0)
     (Arl_ical VtGt Model 11 Deconvolved Residual Restored) (fst (main env_ok)) \<and>
   count_list (stages (fst (main env_ok))) FitsExport = 5 \<and>
   remdups_adj (stages (fst (main env_ok))) =
     [VisibilityCreation, WideFieldAdvice, SkyModelSynthesis, FitsExport,
      Prediction, Conversion, GainTableCreation, GainTableSimulation, GainTableApplication,
      ModelImageCreation, Inversion, FitsExport, ICAL, FitsExport, Release] \<and>
   remdups_adj (stages (fst (main env_ok))) \<noteq> pipeline_order"
  by (simp add: run_simps env_ok_simps pipeline_order_def)

text \<open>
  Claim C3, amended. In every run \<^verbatim>\<open>arl_initialize\<close> is called once and is the first
  library call, and the stage calls that the run makes are an initial segment of the
  stage calls of the whole pipeline, so no stage call is repeated or taken out of order.
  In every run in which each \<^verbatim>\<open>malloc\<close> and \<^verbatim>\<open>calloc\<close> of the driver returns a block, the
  whole sequence executes: visibility creation, wide-field advice, sky-model synthesis,
  FITS export of the sky model, prediction, conversion, gain-table creation, simulation
  and application, model-image creation, inversion, FITS export of the dirty image,
  ICAL, FITS export of the three ICAL outputs, release. The stages other than the FITS
  export execute once each, in the claimed order. ICAL is called once, with the
  visibilities written by \<^verbatim>\<open>arl_apply_gaintable\<close>, the model image, the advised
  \<^verbatim>\<open>vis_slices\<close>, and three output images allocated before the call.
\<close>

theorem pipeline_runs_in_order:
  "take 1 (filter is_library_call (fst (main e))) = [Arl_initialize] \<and>
   count_list (fst (main e)) Arl_initialize = 1 \<and>
   prefix (stages (fst (main e))) pipeline_stages \<and>
   (allocations_succeed e \<longrightarrow>
      stages (fst (main e)) = pipeline_stages \<and>
      stages_but_export (fst (main e)) = filter (\<lambda>s. s \<noteq> FitsExport) pipeline_order \<and>
      filter (\<lambda>c. stage_of c = Some ICAL) (fst (main e)) =
        [Arl_ical VtGt Model (adv_vis_slices e) Deconvolved Residual Restored] \<and>
      precedes (Arl_apply_gaintable Vt Gt VtGt)
        (Arl_ical VtGt Model (adv_vis_slices e) Deconvolved Residual Restored) (fst (main e)) \<and>
      precedes (Allocate_image Model (shape1_of e))
        (Arl_ical VtGt Model (adv_vis_slices e) Deconvolved Residual Restored) (fst (main e)) \<and>
      precedes (Allocate_image Deconvolved (shape1_of e))
        (Arl_ical VtGt Model (adv_vis_slices e) Deconvolved Residual Restored) (fst (main e)) \<and>
      precedes (Allocate_image Residual (shape1_of e))
        (Arl_ical VtGt Model (adv_vis_slices e) Deconvolved Residual Restored) (fst (main e)) \<and>
      precedes (Allocate_image Restored (shape1_of e))
        (Arl_ical VtGt Model (adv_vis_slices e) Deconvolved Residual Restored) (fst (main e)))"
proof -
  have "take 1 (filter is_library_call (fst (main e))) = [Arl_initialize]"
    by (simp add: run_simps)
  moreover have "count_list (fst (main e)) Arl_initialize = 1"
    by (simp add: run_simps)
  moreover have "prefix (stages (fst (main e))) pipeline_stages"
    by (simp add: run_simps pipeline_stages_def eval_nat_numeral)
  moreover have "stages (fst (main e)) = pipeline_stages"
      and "stages_but_export (fst (main e)) = filter (\<lambda>s. s \<noteq> FitsExport) pipeline_order"
      and "filter (\<lambda>c. stage_of c = Some ICAL) (fst (main e)) =
        [Arl_ical VtGt Model (adv_vis_slices e) Deconvolved Residual Restored]"
    if "allocations_succeed e"
    using that
    by (simp_all add: run_simps pipeline_stages_def pipeline_order_def stages_but_export_def
        eval_nat_numeral allocations_succeed_def)
  moreover have "precedes (Arl_apply_gaintable Vt Gt VtGt)
        (Arl_ical VtGt Model (adv_vis_slices e) Deconvolved Residual Restored) (fst (main e))"
      and "precedes (Allocate_image Model (shape1_of e))
        (Arl_ical VtGt Model (adv_vis_slices e) Deconvolved Residual Restored) (fst (main e))"
      and "precedes (Allocate_image Deconvolved (shape1_of e))
        (Arl_ical VtGt Model (adv_vis_slices e) Deconvolved Residual Restored) (fst (main e))"
      and "precedes (Allocate_image Residual (shape1_of e))
        (Arl_ical VtGt Model (adv_vis_slices e) Deconvolved Residual Restored) (fst (main e))"
      and "precedes (Allocate_image Restored (shape1_of e))
        (Arl_ical VtGt Model (adv_vis_slices e) Deconvolved Residual Restored) (fst (main e))"
    if "allocations_succeed e"
    using that
    by (simp_all add: run_simps allocations_succeed_def)
  ultimately show ?thesis
    by blast
qed

text \<open>The run in which nothing fails.\<close>

theorem pipeline_runs_in_order_witness:
  "allocations_succeed env_ok \<and>
   stages (fst (main env_ok)) = pipeline_stages \<and>
   stages_but_export (fst (main env_ok)) =
     [VisibilityCreation, WideFieldAdvice, SkyModelSynthesis, Prediction, Conversion,
      GainTableCreation, GainTableSimulation, GainTableApplication,
      ModelImageCreation, Inversion, ICAL, Release] \<and>
   filter (\<lambda>c. stage_of c = Some ICAL) (fst (main env_ok)) =
     [Arl_ical VtGt Model 11 Deconvolved Residual Restored] \<and>
   precedes (Allocate_image Restored [1, 1, 512, 512])
     (Arl_ical VtGt Model 11 Deconvolved Residual Restored) (fst (main env_ok))"
  using pipeline_runs_in_order [of env_ok] shape1_of_eq(2) [of env_ok 5 1 512 512]
  by (auto simp: env_ok_simps pipeline_order_def)

text \<open>
  Claim C7. The model image, the dirty image and the three ICAL output images
  (deconvolved, residual, restored) are all allocated with the same shape of four
  elements: the first is 1, and the other three are those of the sky-model image shape
  that \<^verbatim>\<open>helper_get_image_shape_multifreq\<close> wrote for the advised pixel count.
\<close>

theorem image_shapes:
  assumes "image_shape e (adv_npixel e) = (s0, s1, s2, s3)"
  shows "(allocations_succeed e \<longrightarrow>
            image_allocations (fst (main e)) =
              [(GleamModel, [s0, s1, s2, s3]),
               (Model, [1, s1, s2, s3]),
               (Dirty, [1, s1, s2, s3]),
               (Deconvolved, [1, s1, s2, s3]),
               (Residual, [1, s1, s2, s3]),
               (Restored, [1, s1, s2, s3])]) \<and>
         (\<forall>b s. Allocate_image b s \<in> set (fst (main e)) \<and> b \<noteq> GleamModel \<longrightarrow>
                  s = [1, s1, s2, s3])"
proof -
  note shapes = shape1_of_eq [OF assms]
  have "image_allocations (fst (main e)) =
              [(GleamModel, [s0, s1, s2, s3]),
               (Model, [1, s1, s2, s3]),
               (Dirty, [1, s1, s2, s3]),
               (Deconvolved, [1, s1, s2, s3]),
               (Residual, [1, s1, s2, s3]),
               (Restored, [1, s1, s2, s3])]"
    if "allocations_succeed e"
    using that by (simp add: run_simps shapes allocations_succeed_def)
  moreover have "s = [1, s1, s2, s3]"
    if "Allocate_image b s \<in> set (fst (main e))" and "b \<noteq> GleamModel" for b s
    using that by (auto simp: run_simps shapes split: if_splits)
  ultimately show ?thesis
    by blast
qed

text \<open>The images of the run in which nothing fails.\<close>

theorem image_shapes_witness:
  "image_shape env_ok (adv_npixel env_ok) = (5, 1, 512, 512) \<and>
   allocations_succeed env_ok \<and>
   image_allocations (fst (main env_ok)) =
     [(GleamModel, [5, 1, 512, 512]),
      (Model, [1, 1, 512, 512]),
      (Dirty, [1, 1, 512, 512]),
      (Deconvolved, [1, 1, 512, 512]),
      (Residual, [1, 1, 512, 512]),
      (Restored, [1, 1, 512, 512])]"
proof -
  have h: "image_shape env_ok (adv_npixel env_ok) = (5, 1, 512, 512)"
    by (simp add: env_ok_simps)
  from image_shapes [OF h] h show ?thesis
    by (simp add: env_ok_simps)
qed

text \<open>
  Claim C2, as stated, fails: in the run where \<^verbatim>\<open>mkdir\<close> returns -1 and every FITS
  export returns a nonzero status, the later stages execute all the same and \<^verbatim>\<open>main\<close>
  returns 0.
\<close>

theorem failed_status_counterexample:
  "mkdir_status env_status_failed = - 1 \<and>
   export_status env_status_failed GleamModel = 104 \<and>
   precedes (Mkdir (- 1))
     (Arl_predict_function Vt GleamModel Vtpredicted VtPredictfunction CindexPredict)
     (fst (main env_status_failed)) \<and>
   precedes (Export_image_to_fits_c GleamModel 104)
     (Arl_ical VtGt Model 11 Deconvolved Residual Restored)
     (fst (main env_status_failed)) \<and>
   snd (main env_status_failed) = Returned 0"
  by (simp add: run_simps env_failed_simps)

text \<open>
  Claim C2, amended. The driver stores the status returned by \<^verbatim>\<open>mkdir\<close> and by each
  FITS export and never tests it: a run makes the same calls and ends the same way
  whatever these statuses are, and when each \<^verbatim>\<open>malloc\<close> and \<^verbatim>\<open>calloc\<close> of the driver
  returns a block it goes through every stage and returns 0. \<^verbatim>\<open>main\<close> returns 1 in one
  case only: the allocation of line 143 returned \<^verbatim>\<open>NULL\<close>.
\<close>

theorem statuses_are_ignored:
  "snd (main e) = snd (main (e\<lparr>mkdir_status := 0, export_status := status_ok\<rparr>)) \<and>
   map erase_status (fst (main e)) =
     fst (main (e\<lparr>mkdir_status := 0, export_status := status_ok\<rparr>)) \<and>
   (allocations_succeed e \<longrightarrow>
      snd (main e) = Returned 0 \<and> stages (fst (main e)) = pipeline_stages) \<and>
   (snd (main e) = Returned 1 \<longleftrightarrow>
      reaches_cindex_allocation e \<and> \<not> malloc_ok e CindexPredict)"
proof -
  have "snd (main e) = snd (main (e\<lparr>mkdir_status := 0, export_status := status_ok\<rparr>))"
    by (simp add: run_simps)
  moreover have "map erase_status (fst (main e)) =
      fst (main (e\<lparr>mkdir_status := 0, export_status := status_ok\<rparr>))"
    by (simp add: run_simps cindex_nbytes_def shape_of_def shape1_of_def status_ok_def)
  moreover have "snd (main e) = Returned 0" and "stages (fst (main e)) = pipeline_stages"
    if "allocations_succeed e"
    using that
    by (simp_all add: run_simps allocations_succeed_def pipeline_stages_def eval_nat_numeral)
  moreover have "snd (main e) = Returned 1 \<longleftrightarrow>
      reaches_cindex_allocation e \<and> \<not> malloc_ok e CindexPredict"
    by (auto simp: run_simps reaches_cindex_allocation_def)
  ultimately show ?thesis
    by blast
qed

text \<open>The run in which every status reports a failure makes the calls of the run in which
  nothing fails.\<close>

theorem statuses_are_ignored_witness:
  "allocations_succeed env_status_failed \<and>
   snd (main env_status_failed) = Returned 0 \<and>
   stages (fst (main env_status_failed)) = pipeline_stages \<and>
   map erase_status (fst (main env_status_failed)) = fst (main env_ok)"
proof -
  have "env_status_failed\<lparr>mkdir_status := 0, export_status := status_ok\<rparr> = env_ok"
    by (simp add: env_status_failed_def env_ok_def)
  with statuses_are_ignored [of env_status_failed] show ?thesis
    by (auto simp: env_failed_simps)
qed

text \<open>
  Claim C8, as stated, fails: in the run where nothing fails, the gain table is allocated
  after the visibility buffer \<^verbatim>\<open>vt\<close> and also released after it, so the releases do not
  mirror the allocations in reverse; and the frequency array of line 112 is allocated
  and never released.
\<close>

theorem release_order_counterexample:
  "snd (main env_ok) = Returned 0 \<and>
   precedes (Allocate_blockvis_data Vt) (Allocate_gt_data Gt) (fst (main env_ok)) \<and>
   precedes (Destroy_vis Vt) (Destroy_gt Gt) (fst (main env_ok)) \<and>
   Freqs \<in> set (allocated (fst (main env_ok))) \<and>
   Freqs \<notin> set (released (fst (main env_ok)))"
  by (simp add: run_simps env_ok_simps)

text \<open>
  Claim C8, amended. In every run in which each \<^verbatim>\<open>malloc\<close> and \<^verbatim>\<open>calloc\<close> of the driver
  returns a block, \<^verbatim>\<open>main\<close> returns 0, and every image, visibility buffer, gain table
  and scratch array that was allocated is released exactly once, after the last FITS
  export; no buffer is released twice. These releases occur in the order images, then
  visibility buffers, then the gain table, then scratch arrays. The order goes by
  category: the gain table is allocated after the visibility buffers and released after
  them.
\<close>

theorem cleanup_releases_once_in_order:
  assumes "allocations_succeed e"
  shows "snd (main e) = Returned 0 \<and>
         released (after_call (Export_image_to_fits_c Restored (export_status e Restored))
                     (fst (main e))) = cleanup_order \<and>
         filter (\<lambda>b. category_of b \<noteq> Config) (released (fst (main e))) = cleanup_order \<and>
         distinct (released (fst (main e))) \<and>
         distinct (allocated (fst (main e))) \<and>
         set (filter (\<lambda>b. category_of b \<noteq> Config) (allocated (fst (main e)))) =
           set cleanup_order \<and>
         remdups_adj (map category_of cleanup_order) = [Image, Visibility, GainTable, Scratch] \<and>
         precedes (Allocate_blockvis_data Vt) (Allocate_gt_data Gt) (fst (main e)) \<and>
         precedes (Destroy_vis Vt) (Destroy_gt Gt) (fst (main e))"
proof -
  have "snd (main e) = Returned 0"
    using assms by (simp add: run_simps allocations_succeed_def)
  moreover have "released (after_call (Export_image_to_fits_c Restored (export_status e Restored))
                     (fst (main e))) = cleanup_order"
    using assms by (simp add: run_simps allocations_succeed_def cleanup_order_def)
  moreover have "filter (\<lambda>b. category_of b \<noteq> Config) (released (fst (main e))) = cleanup_order"
    using assms by (simp add: run_simps allocations_succeed_def cleanup_order_def)
  moreover have "distinct (released (fst (main e)))"
    using assms by (simp add: run_simps allocations_succeed_def)
  moreover have "distinct (allocated (fst (main e)))"
    using assms by (simp add: run_simps allocations_succeed_def)
  moreover have "set (filter (\<lambda>b. category_of b \<noteq> Config) (allocated (fst (main e)))) =
           set cleanup_order"
    using assms by (auto simp: run_simps allocations_succeed_def cleanup_order_def)
  moreover have "remdups_adj (map category_of cleanup_order) =
      [Image, Visibility, GainTable, Scratch]"
    by (simp add: cleanup_order_def)
  moreover have "precedes (Allocate_blockvis_data Vt) (Allocate_gt_data Gt) (fst (main e))"
      and "precedes (Destroy_vis Vt) (Destroy_gt Gt) (fst (main e))"
    using assms by (simp_all add: run_simps allocations_succeed_def)
  ultimately show ?thesis
    by blast
qed

text \<open>The releases of the run in which nothing fails.\<close>

theorem cleanup_releases_once_in_order_witness:
  "allocations_succeed env_ok \<and>
   snd (main env_ok) = Returned 0 \<and>
   released (after_call (Export_image_to_fits_c Restored 0) (fst (main env_ok))) =
     [GleamModel, Model, Dirty, Deconvolved, Residual, Restored,
      Vt, Vtpredicted, VtPredictfunction, VtGt, Gt, CindexPredict, Shape, Shape1] \<and>
   distinct (released (fst (main env_ok)))"
  using cleanup_releases_once_in_order [of env_ok]
  by (auto simp: env_ok_simps cleanup_order_def)

text \<open>
  Claim C9, as stated, fails: the driver does not look at the size it requests. In the
  run where no antenna lies under the cutoff, line 141 computes 0 bytes, \<^verbatim>\<open>malloc\<close>
  returns a block, and the whole pipeline runs and \<^verbatim>\<open>main\<close> returns 0.
\<close>

theorem zero_size_counterexample:
  "cindex_nbytes env_zero_size = 0 \<and>
   precedes (Malloc CindexPredict 0 True)
     (Arl_create_blockvisibility Vt) (fst (main env_zero_size)) \<and>
   precedes (Malloc CindexPredict 0 True)
     (Arl_ical VtGt Model 11 Deconvolved Residual Restored) (fst (main env_zero_size)) \<and>
   snd (main env_zero_size) = Returned 0"
  by (simp add: run_simps env_zero_size_simps)

text \<open>
  Claim C9, amended. When the allocation of the conversion-index array returns \<^verbatim>\<open>NULL\<close>,
  \<^verbatim>\<open>main\<close> returns 1; the only call after the failed allocation is \<^verbatim>\<open>free(NULL)\<close>, and no
  pipeline stage executes. That allocation returns a block exactly when the allocator
  has the memory and the size of line 141 is not negative: a negative size makes it
  fail, and so makes \<^verbatim>\<open>main\<close> return 1, while a size of zero is not rejected. The size
  is the \<^verbatim>\<open>int\<close> that agrees with \<open>440 * nant * nant\<close> modulo \<open>2 ^ 32\<close>.
\<close>

theorem cindex_allocation_failure:
  "(reaches_cindex_allocation e \<and> \<not> malloc_ok e CindexPredict \<longrightarrow>
      snd (main e) = Returned 1 \<and>
      after_call (Malloc CindexPredict (cindex_nbytes e) False) (fst (main e)) = [Free_NULL] \<and>
      stages (fst (main e)) = []) \<and>
   (malloc_ok e CindexPredict \<longleftrightarrow> allocator_ok e CindexPredict \<and> 0 \<le> cindex_nbytes e) \<and>
   (reaches_cindex_allocation e \<and> cindex_nbytes e < 0 \<longrightarrow>
      snd (main e) = Returned 1 \<and> stages (fst (main e)) = []) \<and>
   - 2147483648 \<le> cindex_nbytes e \<and> cindex_nbytes e \<le> 2147483647 \<and>
   (cindex_nbytes e - 440 * nant e * nant e) mod 4294967296 = 0 \<and>
   (- 2147483648 \<le> 440 * nant e * nant e \<and> 440 * nant e * nant e \<le> 2147483647 \<longrightarrow>
      cindex_nbytes e = 440 * nant e * nant e)"
proof -
  have fail: "snd (main e) = Returned 1"
      "after_call (Malloc CindexPredict (cindex_nbytes e) False) (fst (main e)) = [Free_NULL]"
      "stages (fst (main e)) = []"
    if "reaches_cindex_allocation e" and "\<not> malloc_ok e CindexPredict"
    using that by (simp_all add: run_simps reaches_cindex_allocation_def)
  have neg: "\<not> malloc_ok e CindexPredict" if "cindex_nbytes e < 0"
    using that by (simp add: malloc_ok_cindex)
  have size: "cindex_nbytes e = int_wrap (440 * nant e * nant e)"
    by (simp add: cindex_nbytes_def nfreqs_def ntimes_def algebra_simps)
  have range: "- 2147483648 \<le> cindex_nbytes e" "cindex_nbytes e \<le> 2147483647"
    using int_wrap_range [of "440 * nant e * nant e"] unfolding size by simp_all
  have residue: "(cindex_nbytes e - 440 * nant e * nant e) mod 4294967296 = 0"
    unfolding size by (rule int_wrap_residue)
  have exact: "cindex_nbytes e = 440 * nant e * nant e"
    if "- 2147483648 \<le> 440 * nant e * nant e \<and> 440 * nant e * nant e \<le> 2147483647"
    unfolding size using that by (intro int_wrap_fits) (simp add: int_fits_def)
  from fail neg range residue exact malloc_ok_cindex [of e] show ?thesis
    by blast
qed

text \<open>
  The run in which the allocator has no memory for the conversion-index array, and the
  run in which it has but the size of line 141 is negative.
\<close>

theorem cindex_allocation_failure_witness:
  "reaches_cindex_allocation env_cindex_fails \<and>
   \<not> malloc_ok env_cindex_fails CindexPredict \<and>
   snd (main env_cindex_fails) = Returned 1 \<and>
   after_call (Malloc CindexPredict 12124640 False) (fst (main env_cindex_fails)) = [Free_NULL] \<and>
   stages (fst (main env_cindex_fails)) = [] \<and>
   reaches_cindex_allocation env_negative_size \<and>
   allocator_ok env_negative_size CindexPredict \<and>
   cindex_nbytes env_negative_size = - 2145963296 \<and>
   snd (main env_negative_size) = Returned 1 \<and>
   stages (fst (main env_negative_size)) = []"
  using cindex_allocation_failure [of env_cindex_fails]
    cindex_allocation_failure [of env_negative_size]
  by (simp add: env_cindex_fails_simps env_negative_size_simps)

end
